theory Spec2Isabelle
  imports Complex_Main
begin

section \<open>JavaScript values used by server.js\<close>

text \<open>
  An \<open>Error\<close> object is modelled by its \<open>message\<close>, the only property server.js reads.
  Strings are \<open>char list\<close>; the texts server.js builds itself are ASCII.
\<close>

datatype js_error = Error (message: string)

text \<open>
  A promise may reject with any value, not only with an \<open>Error\<close>. Of a rejection the code
  reads the \<open>message\<close> property and nothing else: reading it off \<open>null\<close> or \<open>undefined\<close>
  throws a TypeError; any other value gives the string its \<open>message\<close> holds, or \<open>undefined\<close>
  (\<open>None\<close>) when it has none, as a thrown string has none.
\<close>

datatype js_thrown = Null | Undefined | Thrown "string option"

definition read_message :: "js_thrown \<Rightarrow> js_error + string option" where
  "read_message error =
     (case error of
        Null \<Rightarrow> Inl (Error ''Cannot read properties of null (reading 'message')'')
      | Undefined \<Rightarrow> Inl (Error ''Cannot read properties of undefined (reading 'message')'')
      | Thrown m \<Rightarrow> Inr m)"

text \<open>A value inside a template literal: \<open>undefined\<close> prints as the word.\<close>

definition template_text :: "string option \<Rightarrow> string" where
  "template_text v = (case v of None \<Rightarrow> ''undefined'' | Some t \<Rightarrow> t)"

text \<open>
  \<open>String.prototype.toLowerCase\<close>, on the ASCII letters: \<open>A\<close>..\<open>Z\<close> (codes 65..90) move
  to \<open>a\<close>..\<open>z\<close>, every other character stays.
\<close>

definition char_toLowerCase :: "char \<Rightarrow> char" where
  "char_toLowerCase c =
     (if 65 \<le> (of_char c :: nat) \<and> (of_char c :: nat) \<le> 90
      then char_of ((of_char c :: nat) + 32) else c)"

definition toLowerCase :: "string \<Rightarrow> string" where
  "toLowerCase s = map char_toLowerCase s"

text \<open>Decimal text of a number inside a template literal (\<open>${retryCount}\<close>, \<open>${maxRetries}\<close>).\<close>

definition digit_char :: "nat \<Rightarrow> char" where
  "digit_char d = char_of (48 + d)"

function nat_toString :: "nat \<Rightarrow> string" where
  "nat_toString n = (if n < 10 then [digit_char n] else nat_toString (n div 10) @ [digit_char (n mod 10)])"
  by pat_completeness auto
termination
  by (relation "measure id") auto

definition int_toString :: "int \<Rightarrow> string" where
  "int_toString i = (if i < 0 then CHR ''-'' # nat_toString (nat (- i)) else nat_toString (nat i))"

text \<open>
  \<open>String.prototype.includes\<close>: the needle occurs at some position of the text. The empty
  needle occurs in every text.
\<close>

fun startsWith :: "string \<Rightarrow> string \<Rightarrow> bool" where
  "startsWith s [] = True"
| "startsWith [] (c # cs) = False"
| "startsWith (d # ds) (c # cs) = (d = c \<and> startsWith ds cs)"

fun includes_str :: "string \<Rightarrow> string \<Rightarrow> bool" where
  "includes_str [] sub = (sub = [])"
| "includes_str (c # cs) sub = (startsWith (c # cs) sub \<or> includes_str cs sub)"

section \<open>retryOperation\<close>

text \<open>
  What the orchestrator does besides returning: it invokes the operation, calls
  \<open>console.log\<close> and sets a timer. The events are collected in program order. A console event
  records the arguments of the call, not the line printed: the first argument of
  \<open>console.log\<close> is a format string, so what is printed depends on the directives in it.
\<close>

datatype event =
    Invoked
  | Console_log string "string option"
  | Console_error string js_error
  | SetTimeout int

text \<open>
  \<open>operation\<close> is an asynchronous closure: each call acts on the world \<open>'w\<close> outside the
  orchestrator and either rejects with some value (\<open>Inl\<close>) or resolves to a value (\<open>Inr\<close>).
\<close>

type_synonym ('w, 'a) operation = "'w \<Rightarrow> (js_thrown + 'a) \<times> 'w"

text \<open>
  The \<open>while (retryCount < maxRetries)\<close> loop of lines 68-82, entered with the current
  \<open>retryCount\<close>. The result is \<open>Inl\<close> for a thrown error, \<open>Inr (Some v)\<close> for
  \<open>return await operation()\<close>, and \<open>Inr None\<close> when the loop is left without a
  \<open>return\<close>, which resolves the promise to \<open>undefined\<close>. Inside the \<open>catch\<close>, line 73 reads
  \<open>error.message\<close> while it evaluates the arguments of \<open>console.log\<close>: when that throws, the
  TypeError leaves the function before anything is logged, and nothing is retried.
\<close>

function retry_loop ::
  "('w, 'a) operation \<Rightarrow> int \<Rightarrow> string \<Rightarrow> int \<Rightarrow> 'w \<Rightarrow> event list
     \<Rightarrow> (js_error + 'a option) \<times> 'w \<times> event list" where
  "retry_loop operation maxRetries operationName retryCount w evs =
     (if retryCount < maxRetries then
        (case operation w of
           (Inr v, w') \<Rightarrow> (Inr (Some v), w', evs @ [Invoked])
         | (Inl error, w') \<Rightarrow>
             (case read_message error of
                Inl typeError \<Rightarrow> (Inl typeError, w', evs @ [Invoked])
              | Inr m \<Rightarrow>
                  (if retryCount + 1 \<ge> maxRetries then
                     (Inl (Error (''Failed to complete '' @ toLowerCase operationName @ '' after ''
                             @ int_toString maxRetries @ '' attempts: '' @ template_text m)),
                      w',
                      evs @ [Invoked,
                             Console_log (operationName @ '' attempt '' @ int_toString (retryCount + 1)
                                            @ '' failed:'') m])
                   else
                     retry_loop operation maxRetries operationName (retryCount + 1) w'
                       (evs @ [Invoked,
                               Console_log (operationName @ '' attempt '' @ int_toString (retryCount + 1)
                                              @ '' failed:'') m,
                               SetTimeout (1000 * (retryCount + 1))]))))
      else (Inr None, w, evs))"
  by pat_completeness auto
termination
  by (relation "measure (\<lambda>(operation, maxRetries, operationName, retryCount, w, evs).
                  nat (maxRetries - retryCount))") auto

definition retryOperation ::
  "('w, 'a) operation \<Rightarrow> int \<Rightarrow> string \<Rightarrow> 'w \<Rightarrow> (js_error + 'a option) \<times> 'w \<times> event list" where
  "retryOperation operation maxRetries operationName w =
     retry_loop operation maxRetries operationName 0 w []"

declare retry_loop.simps [simp del]

text \<open>The number of times the operation was invoked, read off the events.\<close>

definition invocations :: "event list \<Rightarrow> nat" where
  "invocations evs = length (filter (\<lambda>e. e = Invoked) evs)"

section \<open>The upload directory and cleanupFile\<close>

text \<open>
  Node's \<open>fs\<close> module is the runtime's, not the repository's. Of the file system the model
  keeps what cleanupFile can observe: which paths exist, and for which of them the operating
  system refuses removal (\<open>unlinkSync\<close> then throws, for instance EPERM or EBUSY).
\<close>

record filesystem =
  files :: "string set"
  undeletable :: "string set"

definition existsSync :: "string \<Rightarrow> filesystem \<Rightarrow> bool" where
  "existsSync p fsys = (p \<in> files fsys)"

definition unlinkSync :: "string \<Rightarrow> filesystem \<Rightarrow> (js_error + unit) \<times> filesystem" where
  "unlinkSync p fsys =
     (if p \<notin> files fsys then (Inl (Error ''ENOENT: no such file or directory, unlink''), fsys)
      else if p \<in> undeletable fsys then (Inl (Error ''EPERM: operation not permitted, unlink''), fsys)
      else (Inr (), fsys\<lparr>files := files fsys - {p}\<rparr>))"

text \<open>
  The world a request runs in: the file system, the state \<open>'s\<close> of the two external
  services, and the events (console lines, invocations, timers) in program order.
\<close>

record 's world =
  fs :: filesystem
  services :: 's
  events :: "event list"

text \<open>
  cleanupFile (lines 55-63). Its argument is \<open>None\<close> for \<open>undefined\<close> (\<open>req.file?.path\<close>
  without a file); the empty string is falsy as well. An exception of \<open>unlinkSync\<close> is caught
  and logged, and nothing is rethrown.
\<close>

definition cleanupFile :: "string option \<Rightarrow> 's world \<Rightarrow> 's world" where
  "cleanupFile filePath w =
     (case filePath of
        None \<Rightarrow> w
      | Some p \<Rightarrow>
          (if p \<noteq> [] \<and> existsSync p (fs w) then
             (case unlinkSync p (fs w) of
                (Inr u, fsys') \<Rightarrow> w\<lparr>fs := fsys'\<rparr>
              | (Inl error, fsys') \<Rightarrow>
                  w\<lparr>fs := fsys', events := events w @ [Console_error ''Error cleaning up file:'' error]\<rparr>)
           else w))"

text \<open>The failures cleanupFile has logged, read off the events.\<close>

fun cleanup_errors :: "event list \<Rightarrow> js_error list" where
  "cleanup_errors [] = []"
| "cleanup_errors (Console_error label error # evs) =
     (if label = ''Error cleaning up file:'' then error # cleanup_errors evs else cleanup_errors evs)"
| "cleanup_errors (e # evs) = cleanup_errors evs"

section \<open>JSON values, requests and responses\<close>

datatype json =
    JNull
  | JBool bool
  | JNumber rat
  | JString string
  | JArray "json list"
  | JObject "(string \<times> json) list"

text \<open>Reading a property of a parsed value; \<open>None\<close> where JavaScript gives \<open>undefined\<close>.\<close>

fun get_property :: "string \<Rightarrow> json \<Rightarrow> json option" where
  "get_property k (JObject kvs) = map_of kvs k"
| "get_property k v = None"

text \<open>
  \<open>req.file\<close> as multer's disk storage fills it in (\<open>size_bytes\<close> is its \<open>size\<close>), and the
  part of the request the handler reads: \<open>file_part\<close> is \<open>req.file\<close>, \<open>None\<close> when the
  request had no audio part, and \<open>question\<close> is \<open>req.body.question\<close>.
\<close>

record upload =
  path :: string
  filename :: string
  originalname :: string
  size_bytes :: nat

record request =
  file_part :: "upload option"
  question :: "string option"

record response =
  status :: nat
  body :: json

text \<open>
  The chat completion as far as line 169 reads it: the \<open>message.content\<close> of each choice,
  \<open>None\<close> for a \<open>null\<close> content.
\<close>

record completion =
  choices :: "string option list"

text \<open>
  The collaborators of the handler, none of them repository code: the speech-to-text call on
  the stream of a path, the chat completion call on the user message (model, system
  directive and the other request constants of lines 122-156 are fixed), the runtime's
  \<open>JSON.parse\<close> (\<open>Inl\<close> is the exception it throws), and the clock read by
  \<open>new Date().toISOString()\<close>.
\<close>

record 's capabilities =
  transcribe :: "string \<Rightarrow> 's \<Rightarrow> (js_thrown + string) \<times> 's"
  generate :: "string \<Rightarrow> 's \<Rightarrow> (js_thrown + completion) \<times> 's"
  JSON_parse :: "string \<Rightarrow> js_error + json"
  toISOString_now :: string

section \<open>The handler of POST /api/assessment\<close>

text \<open>
  The two operations handed to retryOperation (lines 107-113 and 120-158). They act on the
  services only: \<open>fs.createReadStream\<close> reads the upload and changes no file.
\<close>

definition transcription_operation :: "'s capabilities \<Rightarrow> string \<Rightarrow> ('s world, string) operation" where
  "transcription_operation cap audioFilePath w =
     (case transcribe cap audioFilePath (services w) of (r, s') \<Rightarrow> (r, w\<lparr>services := s'\<rparr>))"

definition user_content :: "string \<Rightarrow> string option \<Rightarrow> string" where
  "user_content q transcription =
     ''Question: '' @ q @ [CHR 0x0A, CHR 0x0A]
       @ ''Student's Audio Response (Transcribed): '' @ [CHR 0x22] @ template_text transcription
       @ [CHR 0x22, CHR 0x0A, CHR 0x0A]
       @ ''Please evaluate this response and provide feedback in the required JSON format.''"

definition evaluation_operation ::
  "'s capabilities \<Rightarrow> string \<Rightarrow> string option \<Rightarrow> ('s world, completion) operation" where
  "evaluation_operation cap q transcription w =
     (case generate cap (user_content q transcription) (services w) of
        (r, s') \<Rightarrow> (r, w\<lparr>services := s'\<rparr>))"

text \<open>\<open>await retryOperation(...)\<close> inside the handler: the orchestrator's events join the world's.\<close>

definition await_retry ::
  "('s world, 'a) operation \<Rightarrow> int \<Rightarrow> string \<Rightarrow> 's world \<Rightarrow> (js_error + 'a option) \<times> 's world" where
  "await_retry operation maxRetries operationName w =
     (case retryOperation operation maxRetries operationName w of
        (r, w', evs) \<Rightarrow> (r, w'\<lparr>events := events w' @ evs\<rparr>))"

text \<open>The object of lines 172-183.\<close>

definition fallback_evaluation :: json where
  "fallback_evaluation =
     JObject [(''strengths'', JArray [JString ''Good effort'']),
              (''areasToImprove'', JArray [JString ''Could improve structure'']),
              (''perfectDefinition'', JString ''A comprehensive answer with clear examples''),
              (''encouragement'', JString ''Keep practicing!''),
              (''score'', JObject [(''content'', JNumber 3),
                                   (''clarity'', JNumber 2),
                                   (''completeness'', JNumber 1),
                                   (''total'', JNumber 6)])]"

text \<open>
  The expression \<open>evaluationResponse.choices[0].message.content\<close>: reading a property of
  \<open>undefined\<close> throws a TypeError, inside the \<open>try\<close> of line 168.
\<close>

definition first_content :: "completion option \<Rightarrow> js_error + string option" where
  "first_content evaluationResponse =
     (case evaluationResponse of
        None \<Rightarrow> Inl (Error ''Cannot read properties of undefined (reading 'choices')'')
      | Some r \<Rightarrow>
          (case choices r of
             [] \<Rightarrow> Inl (Error ''Cannot read properties of undefined (reading 'message')'')
           | c # cs \<Rightarrow> Inr c))"

text \<open>
  Lines 167-184. \<open>JSON.parse\<close> converts its argument to a string first, so a \<open>null\<close> content
  is parsed as the text \<open>null\<close>. Whatever \<open>JSON.parse\<close> returns becomes the evaluation; the
  fallback is taken only when the \<open>try\<close> block throws.
\<close>

definition parse_evaluation ::
  "(string \<Rightarrow> js_error + json) \<Rightarrow> completion option \<Rightarrow> json \<times> event list" where
  "parse_evaluation parse evaluationResponse =
     (case first_content evaluationResponse of
        Inl parseError \<Rightarrow>
          (fallback_evaluation, [Console_error ''Error parsing evaluation JSON:'' parseError])
      | Inr content \<Rightarrow>
          (case parse (case content of None \<Rightarrow> ''null'' | Some t \<Rightarrow> t) of
             Inl parseError \<Rightarrow>
               (fallback_evaluation, [Console_error ''Error parsing evaluation JSON:'' parseError])
           | Inr evaluation \<Rightarrow> (evaluation, [])))"

text \<open>Lines 205-212: the first needle found in the message decides, in this order.\<close>

definition errorMessage_of :: "string \<Rightarrow> string" where
  "errorMessage_of m =
     (if includes_str m ''ECONNRESET'' then
        ''Network connection issue. Please check your internet connection and try again.''
      else if includes_str m ''API key'' then
        ''OpenAI API key issue. Please check your configuration.''
      else if includes_str m ''rate limit'' then
        ''OpenAI rate limit exceeded. Please wait a moment and try again.''
      else ''Failed to assess audio'')"

text \<open>The \<open>catch\<close> block of lines 201-218.\<close>

definition catch_block :: "js_error \<Rightarrow> request \<Rightarrow> 's world \<Rightarrow> response \<times> 's world" where
  "catch_block error req w =
     (\<lparr>status = 500,
       body = JObject [(''error'', JString (errorMessage_of (message error))),
                       (''details'', JString (message error))]\<rparr>,
      cleanupFile (map_option path (file_part req))
        (w\<lparr>events := events w @ [Console_error ''Error assessing audio:'' error]\<rparr>))"

text \<open>The body of line 186-199; \<open>res.json\<close> leaves out a property whose value is \<open>undefined\<close>.\<close>

definition success_body :: "'s capabilities \<Rightarrow> upload \<Rightarrow> string \<Rightarrow> string option \<Rightarrow> json \<Rightarrow> json" where
  "success_body cap f q transcription evaluation =
     JObject ([(''success'', JBool True), (''question'', JString q)]
              @ (case transcription of None \<Rightarrow> [] | Some t \<Rightarrow> [(''transcription'', JString t)])
              @ [(''assessment'', evaluation),
                 (''metadata'',
                  JObject [(''audioFile'', JString (filename f)),
                           (''originalName'', JString (originalname f)),
                           (''fileSize'', JNumber (of_nat (size_bytes f))),
                           (''model'', JString ''gpt-4o-mini''),
                           (''transcriptionModel'', JString ''whisper-1''),
                           (''evaluatedAt'', JString (toISOString_now cap))])])"

text \<open>The two \<open>res.status(400).json({error, message})\<close> replies.\<close>

definition bad_request :: "string \<Rightarrow> string \<Rightarrow> response" where
  "bad_request e m = \<lparr>status = 400, body = JObject [(''error'', JString e), (''message'', JString m)]\<rparr>"

text \<open>
  The handler, lines 86-219, after multer has filled in \<open>req.file\<close> and \<open>req.body\<close>. A
  missing and an empty question are both falsy. Both \<open>return res.status(400)\<close> statements
  leave the handler at once.
\<close>

definition assessment_handler :: "'s capabilities \<Rightarrow> request \<Rightarrow> 's world \<Rightarrow> response \<times> 's world" where
  "assessment_handler cap req w =
     (case file_part req of
        None \<Rightarrow>
          (bad_request ''No audio file provided'' ''Please provide an audio file in the request'', w)
      | Some f \<Rightarrow>
          (case question req of
             None \<Rightarrow>
               (bad_request ''No question provided'' ''Please provide a question in the request body'', w)
           | Some q \<Rightarrow>
               (if q = [] then
                  (bad_request ''No question provided'' ''Please provide a question in the request body'', w)
                else
                  (case await_retry (transcription_operation cap (path f)) 3 ''Transcription'' w of
                     (Inl error, w1) \<Rightarrow> catch_block error req w1
                   | (Inr transcription, w1) \<Rightarrow>
                       (case await_retry (evaluation_operation cap q transcription) 3 ''Evaluation'' w1 of
                          (Inl error, w2) \<Rightarrow> catch_block error req w2
                        | (Inr evaluationResponse, w2) \<Rightarrow>
                            (case parse_evaluation (JSON_parse cap) evaluationResponse of
                               (evaluation, logged) \<Rightarrow>
                                 (\<lparr>status = 200,
                                   body = success_body cap f q transcription evaluation\<rparr>,
                                  (cleanupFile (Some (path f)) w2)
                                    \<lparr>events := events (cleanupFile (Some (path f)) w2) @ logged\<rparr>)))))))"

section \<open>The 404 handler\<close>

text \<open>Lines 242-248, and the one route registered on line 86.\<close>

definition not_found_handler :: "string \<Rightarrow> string \<Rightarrow> response" where
  "not_found_handler method originalUrl =
     \<lparr>status = 404,
      body = JObject [(''error'', JString ''Endpoint not found''),
                      (''message'', JString (''The endpoint '' @ method @ '' '' @ originalUrl
                                              @ '' does not exist'')),
                      (''availableEndpoint'', JString ''POST /api/assess'')]\<rparr>"

definition assessment_route :: "string \<times> string" where
  "assessment_route = (''POST'', ''/api/assessment'')"

section \<open>A fragment of JSON.parse for the examples\<close>

text \<open>
  The handler takes \<open>JSON.parse\<close> as a parameter, so the theorems about it hold for the
  runtime's parser whatever it accepts. The closed examples need a parser that computes. The
  one below follows the JSON grammar for texts built from objects, arrays, strings without
  escapes, integers and the three literals, and rejects every other text (also the valid
  ones with escapes, fractions or exponents, which no example uses). A repeated key keeps
  its first position and takes the last value, as in JavaScript.
\<close>

datatype token =
    TLBrace | TRBrace | TLBracket | TRBracket | TColon | TComma
  | TString string | TNumber int | TTrue | TFalse | TNull

datatype lex_mode = Between | InString string | InAtom string

definition is_space :: "char \<Rightarrow> bool" where
  "is_space c = (c = CHR 0x20 \<or> c = CHR 0x09 \<or> c = CHR 0x0A \<or> c = CHR 0x0D)"

definition punctuation :: "char \<Rightarrow> token option" where
  "punctuation c =
     (if c = CHR ''{'' then Some TLBrace else if c = CHR ''}'' then Some TRBrace
      else if c = CHR ''['' then Some TLBracket else if c = CHR '']'' then Some TRBracket
      else if c = CHR '':'' then Some TColon else if c = CHR '','' then Some TComma
      else None)"

definition is_digit :: "char \<Rightarrow> bool" where
  "is_digit c = (48 \<le> (of_char c :: nat) \<and> (of_char c :: nat) \<le> 57)"

definition natural_of :: "string \<Rightarrow> nat option" where
  "natural_of ds =
     (case ds of
        [] \<Rightarrow> None
      | d # rest \<Rightarrow>
          (if list_all is_digit ds then
             (if d = CHR ''0'' \<and> rest \<noteq> [] then None
              else Some (foldl (\<lambda>n c. 10 * n + ((of_char c :: nat) - 48)) 0 ds))
           else None))"

definition atom_token :: "string \<Rightarrow> token option" where
  "atom_token a =
     (if a = ''true'' then Some TTrue
      else if a = ''false'' then Some TFalse
      else if a = ''null'' then Some TNull
      else (case a of
              [] \<Rightarrow> None
            | c # cs \<Rightarrow>
                (if c = CHR ''-'' then map_option (\<lambda>n. TNumber (- int n)) (natural_of cs)
                 else map_option (\<lambda>n. TNumber (int n)) (natural_of a))))"

definition emit :: "token option \<Rightarrow> token list option \<Rightarrow> token list option" where
  "emit t rest = (case (t, rest) of (Some x, Some xs) \<Rightarrow> Some (x # xs) | _ \<Rightarrow> None)"

fun lex :: "lex_mode \<Rightarrow> string \<Rightarrow> token list option" where
  "lex Between [] = Some []"
| "lex (InString acc) [] = None"
| "lex (InAtom acc) [] = emit (atom_token (rev acc)) (Some [])"
| "lex Between (c # cs) =
     (if is_space c then lex Between cs
      else if c = CHR 0x22 then lex (InString []) cs
      else if punctuation c \<noteq> None then emit (punctuation c) (lex Between cs)
      else lex (InAtom [c]) cs)"
| "lex (InString acc) (c # cs) =
     (if c = CHR 0x22 then emit (Some (TString (rev acc))) (lex Between cs)
      else if c = CHR 0x5C \<or> (of_char c :: nat) < 32 \<or> (of_char c :: nat) > 126 then None
      else lex (InString (c # acc)) cs)"
| "lex (InAtom acc) (c # cs) =
     (if is_space c then emit (atom_token (rev acc)) (lex Between cs)
      else if c = CHR 0x22 then emit (atom_token (rev acc)) (lex (InString []) cs)
      else if punctuation c \<noteq> None then
        emit (atom_token (rev acc)) (emit (punctuation c) (lex Between cs))
      else lex (InAtom (c # acc)) cs)"

text \<open>The parser proper: a stack of the containers that are still open.\<close>

datatype frame = FArray "json list" | FObject "(string \<times> json) list" string

datatype pstate =
    WantValue "frame list"
  | ArrayOpened "frame list"
  | ArrayAfter "json list" "frame list"
  | ObjectOpened "frame list"
  | WantKey "(string \<times> json) list" "frame list"
  | WantColon "(string \<times> json) list" string "frame list"
  | ObjectAfter "(string \<times> json) list" "frame list"
  | Done json

fun set_member :: "string \<Rightarrow> json \<Rightarrow> (string \<times> json) list \<Rightarrow> (string \<times> json) list" where
  "set_member k v [] = [(k, v)]"
| "set_member k v (p # ps) = (if fst p = k then (k, v) # ps else p # set_member k v ps)"

fun complete :: "json \<Rightarrow> frame list \<Rightarrow> pstate" where
  "complete v [] = Done v"
| "complete v (FArray xs # st) = ArrayAfter (v # xs) st"
| "complete v (FObject kvs k # st) = ObjectAfter (set_member k v kvs) st"

fun begin_value :: "token \<Rightarrow> frame list \<Rightarrow> pstate option" where
  "begin_value TLBracket st = Some (ArrayOpened st)"
| "begin_value TLBrace st = Some (ObjectOpened st)"
| "begin_value (TString t) st = Some (complete (JString t) st)"
| "begin_value (TNumber n) st = Some (complete (JNumber (of_int n)) st)"
| "begin_value TTrue st = Some (complete (JBool True) st)"
| "begin_value TFalse st = Some (complete (JBool False) st)"
| "begin_value TNull st = Some (complete JNull st)"
| "begin_value t st = None"

fun pstep :: "pstate \<Rightarrow> token \<Rightarrow> pstate option" where
  "pstep (WantValue st) t = begin_value t st"
| "pstep (ArrayOpened st) t =
     (if t = TRBracket then Some (complete (JArray []) st) else begin_value t (FArray [] # st))"
| "pstep (ArrayAfter xs st) t =
     (if t = TComma then Some (WantValue (FArray xs # st))
      else if t = TRBracket then Some (complete (JArray (rev xs)) st)
      else None)"
| "pstep (ObjectOpened st) t =
     (case t of TRBrace \<Rightarrow> Some (complete (JObject []) st)
              | TString k \<Rightarrow> Some (WantColon [] k st)
              | _ \<Rightarrow> None)"
| "pstep (WantKey kvs st) t = (case t of TString k \<Rightarrow> Some (WantColon kvs k st) | _ \<Rightarrow> None)"
| "pstep (WantColon kvs k st) t =
     (if t = TColon then Some (WantValue (FObject kvs k # st)) else None)"
| "pstep (ObjectAfter kvs st) t =
     (if t = TComma then Some (WantKey kvs st)
      else if t = TRBrace then Some (complete (JObject kvs) st)
      else None)"
| "pstep (Done v) t = None"

fun psteps :: "pstate \<Rightarrow> token list \<Rightarrow> pstate option" where
  "psteps p [] = Some p"
| "psteps p (t # ts) = (case pstep p t of None \<Rightarrow> None | Some p' \<Rightarrow> psteps p' ts)"

definition JSON_parse_fragment :: "string \<Rightarrow> js_error + json" where
  "JSON_parse_fragment text =
     (case lex Between text of
        None \<Rightarrow> Inl (Error ''Unexpected token in JSON'')
      | Some ts \<Rightarrow>
          (case psteps (WantValue []) ts of
             Some (Done v) \<Rightarrow> Inr v
           | _ \<Rightarrow> Inl (Error ''Unexpected token in JSON'')))"

section \<open>The properties the data model asks of an Assessment\<close>

text \<open>
  The score of an assessment is well formed when content, clarity and completeness are
  numbers between 0 and 5 and total is their sum.
\<close>

definition number_of :: "json option \<Rightarrow> rat option" where
  "number_of v = (case v of Some (JNumber n) \<Rightarrow> Some n | _ \<Rightarrow> None)"

definition score_well_formed :: "json \<Rightarrow> bool" where
  "score_well_formed assessment =
     (case get_property ''score'' assessment of
        None \<Rightarrow> False
      | Some sc \<Rightarrow>
          (case (number_of (get_property ''content'' sc), number_of (get_property ''clarity'' sc),
                 number_of (get_property ''completeness'' sc), number_of (get_property ''total'' sc)) of
             (Some c, Some l, Some m, Some t) \<Rightarrow>
               0 \<le> c \<and> c \<le> 5 \<and> 0 \<le> l \<and> l \<le> 5 \<and> 0 \<le> m \<and> m \<le> 5 \<and> t = c + l + m
           | _ \<Rightarrow> False))"

text \<open>The number of entries of an array property; \<open>None\<close> when the property is no array.\<close>

definition entries :: "string \<Rightarrow> json \<Rightarrow> nat option" where
  "entries k v = (case get_property k v of Some (JArray xs) \<Rightarrow> Some (length xs) | _ \<Rightarrow> None)"

section \<open>Example requests, services and worlds\<close>

definition upload_example :: upload where
  "upload_example =
     \<lparr>path = ''uploads/audio-1705312200000-123456789.mp3'',
      filename = ''audio-1705312200000-123456789.mp3'',
      originalname = ''answer.mp3'',
      size_bytes = 1024000\<rparr>"

definition request_example :: request where
  "request_example = \<lparr>file_part = Some upload_example, question = Some ''What is photosynthesis?''\<rparr>"

definition request_without_question :: request where
  "request_without_question = \<lparr>file_part = Some upload_example, question = None\<rparr>"

definition request_without_audio :: request where
  "request_without_audio = \<lparr>file_part = None, question = Some ''What is photosynthesis?''\<rparr>"

text \<open>
  The upload directory holds the file multer has just written; the services have answered
  no call yet (their state counts the calls).
\<close>

definition world_example :: "nat world" where
  "world_example =
     \<lparr>fs = \<lparr>files = {''uploads/audio-1705312200000-123456789.mp3''}, undeletable = {}\<rparr>,
      services = 0, events = []\<rparr>"

text \<open>The directory when the request carried no audio part: multer wrote nothing.\<close>

definition world_without_upload :: "nat world" where
  "world_without_upload = \<lparr>fs = \<lparr>files = {}, undeletable = {}\<rparr>, services = 0, events = []\<rparr>"

text \<open>The same directory when the operating system refuses to remove the file.\<close>

definition world_undeletable :: "nat world" where
  "world_undeletable =
     \<lparr>fs = \<lparr>files = {''uploads/audio-1705312200000-123456789.mp3''},
            undeletable = {''uploads/audio-1705312200000-123456789.mp3''}\<rparr>,
      services = 0, events = []\<rparr>"

text \<open>Services that give the same answer to every call.\<close>

definition constant_services :: "(js_thrown + string) \<Rightarrow> (js_thrown + completion) \<Rightarrow> nat capabilities" where
  "constant_services t g =
     \<lparr>transcribe = (\<lambda>audioFilePath n. (t, Suc n)),
      generate = (\<lambda>content n. (g, Suc n)),
      JSON_parse = JSON_parse_fragment,
      toISOString_now = ''2024-01-15T10:30:00.000Z''\<rparr>"

text \<open>
  An operation that rejects its first \<open>k\<close> calls and resolves from then on, first with
  \<open>Error\<close> objects as rejections, then with \<open>null\<close>.
\<close>

definition failure_text :: "nat \<Rightarrow> string" where
  "failure_text n =
     (if n = 0 then ''read ECONNRESET'' else if n = 1 then ''socket hang up''
      else ''429 rate limit reached'')"

definition flaky_operation :: "nat \<Rightarrow> (nat, string) operation" where
  "flaky_operation k n =
     (if n < k then Inl (Thrown (Some (failure_text n))) else Inr ''a transcript'', Suc n)"

definition null_rejecting_operation :: "nat \<Rightarrow> (nat, string) operation" where
  "null_rejecting_operation k n = (if n < k then Inl Null else Inr ''a transcript'', Suc n)"

text \<open>Three texts the chat completion may return.\<close>

definition text_not_json :: string where
  "text_not_json = ''Sorry, I cannot evaluate this response.''"

definition text_bad_score :: string where
  "text_bad_score =
     ''{\"strengths\":[\"Clear\",\"Concise\"],\"areasToImprove\":[\"Depth\",\"Examples\"],\"perfectDefinition\":\"A model answer\",\"encouragement\":\"Well done\",\"score\":{\"content\":9,\"clarity\":4,\"completeness\":3,\"total\":11}}''"

definition assessment_bad_score :: json where
  "assessment_bad_score =
     JObject [(''strengths'', JArray [JString ''Clear'', JString ''Concise'']),
              (''areasToImprove'', JArray [JString ''Depth'', JString ''Examples'']),
              (''perfectDefinition'', JString ''A model answer''),
              (''encouragement'', JString ''Well done''),
              (''score'', JObject [(''content'', JNumber 9), (''clarity'', JNumber 4),
                                   (''completeness'', JNumber 3), (''total'', JNumber 11)])]"

definition text_good :: string where
  "text_good =
     ''{\"strengths\":[\"Clear\",\"Concise\"],\"areasToImprove\":[\"Depth\",\"Examples\"],\"perfectDefinition\":\"A model answer\",\"encouragement\":\"Well done\",\"score\":{\"content\":4,\"clarity\":4,\"completeness\":3,\"total\":11}}''"

section \<open>Strings\<close>

text \<open>\<open>includes_str\<close> is the substring test.\<close>

lemma startsWith_iff: "startsWith s sub \<longleftrightarrow> (\<exists>b. s = sub @ b)"
  by (induction s sub rule: startsWith.induct) auto

lemma includes_str_iff: "includes_str s sub \<longleftrightarrow> (\<exists>a b. s = a @ sub @ b)"
proof (induction s)
  case Nil
  then show ?case by auto
next
  case (Cons c cs)
  show ?case
  proof
    assume "includes_str (c # cs) sub"
    then consider "startsWith (c # cs) sub" | "includes_str cs sub" by auto
    then show "\<exists>a b. c # cs = a @ sub @ b"
    proof cases
      case 1
      then obtain b where "c # cs = [] @ sub @ b" by (auto simp: startsWith_iff)
      then show ?thesis by blast
    next
      case 2
      then obtain a b where "cs = a @ sub @ b" using Cons.IH by blast
      then have "c # cs = (c # a) @ sub @ b" by simp
      then show ?thesis by blast
    qed
  next
    assume "\<exists>a b. c # cs = a @ sub @ b"
    then obtain a b where ab: "c # cs = a @ sub @ b" by blast
    show "includes_str (c # cs) sub"
    proof (cases a)
      case Nil
      with ab have "startsWith (c # cs) sub" by (auto simp: startsWith_iff)
      then show ?thesis by simp
    next
      case (Cons x xs)
      with ab have "cs = xs @ sub @ b" by simp
      then have "includes_str cs sub" using Cons.IH by blast
      then show ?thesis by simp
    qed
  qed
qed

section \<open>The retry loop, step by step\<close>

lemma retry_loop_limit:
  "\<not> retryCount < maxRetries \<Longrightarrow>
     retry_loop operation maxRetries operationName retryCount w evs = (Inr None, w, evs)"
  by (subst retry_loop.simps) simp

lemma retry_loop_success:
  "retryCount < maxRetries \<Longrightarrow> operation w = (Inr v, w') \<Longrightarrow>
     retry_loop operation maxRetries operationName retryCount w evs = (Inr (Some v), w', evs @ [Invoked])"
  by (subst retry_loop.simps) simp

lemma retry_loop_type_error:
  "retryCount < maxRetries \<Longrightarrow> operation w = (Inl error, w') \<Longrightarrow> read_message error = Inl typeError \<Longrightarrow>
     retry_loop operation maxRetries operationName retryCount w evs = (Inl typeError, w', evs @ [Invoked])"
  by (subst retry_loop.simps) simp

lemma retry_loop_give_up:
  "retryCount < maxRetries \<Longrightarrow> operation w = (Inl error, w') \<Longrightarrow> read_message error = Inr m \<Longrightarrow>
   maxRetries \<le> retryCount + 1 \<Longrightarrow>
     retry_loop operation maxRetries operationName retryCount w evs =
       (Inl (Error (''Failed to complete '' @ toLowerCase operationName @ '' after ''
               @ int_toString maxRetries @ '' attempts: '' @ template_text m)),
        w',
        evs @ [Invoked,
               Console_log (operationName @ '' attempt '' @ int_toString (retryCount + 1)
                              @ '' failed:'') m])"
  by (subst retry_loop.simps) simp

lemma retry_loop_again:
  "retryCount < maxRetries \<Longrightarrow> operation w = (Inl error, w') \<Longrightarrow> read_message error = Inr m \<Longrightarrow>
   \<not> maxRetries \<le> retryCount + 1 \<Longrightarrow>
     retry_loop operation maxRetries operationName retryCount w evs =
       retry_loop operation maxRetries operationName (retryCount + 1) w'
         (evs @ [Invoked,
                 Console_log (operationName @ '' attempt '' @ int_toString (retryCount + 1)
                                @ '' failed:'') m,
                 SetTimeout (1000 * (retryCount + 1))])"
  by (subst retry_loop.simps) simp

lemma int_toString_small:
  "int_toString 1 = ''1''" "int_toString 2 = ''2''" "int_toString 3 = ''3''"
  by code_simp+

text \<open>
  Every property below is shown the same way: by the induction that follows the loop, with
  one case for each way an iteration can end.
\<close>

lemma retry_loop_defined:
  "retryCount < maxRetries \<Longrightarrow>
     fst (retry_loop operation maxRetries operationName retryCount w evs) \<noteq> Inr None"
proof (induction operation maxRetries operationName retryCount w evs rule: retry_loop.induct)
  case (1 operation maxRetries operationName retryCount w evs)
  obtain r w' where ow: "operation w = (r, w')" by (cases "operation w")
  show ?case
  proof (cases r)
    case (Inr v)
    with ow "1.prems" show ?thesis by (simp add: retry_loop_success)
  next
    case (Inl error)
    show ?thesis
    proof (cases "read_message error")
      case typeError: (Inl typeError)
      with ow Inl "1.prems" show ?thesis by (simp add: retry_loop_type_error)
    next
      case m: (Inr m)
      show ?thesis
      proof (cases "maxRetries \<le> retryCount + 1")
        case True
        with ow Inl m "1.prems" show ?thesis by (simp add: retry_loop_give_up)
      next
        case False
        then have "retryCount + 1 < maxRetries" by simp
        with "1.IH" [OF "1.prems" ow [symmetric] Inl m False] ow Inl m "1.prems" False show ?thesis
          by (simp add: retry_loop_again)
      qed
    qed
  qed
qed

lemma retry_loop_invocations:
  "invocations (snd (snd (retry_loop operation maxRetries operationName retryCount w evs)))
     \<le> invocations evs + nat (maxRetries - retryCount)"
proof (induction operation maxRetries operationName retryCount w evs rule: retry_loop.induct)
  case (1 operation maxRetries operationName retryCount w evs)
  show ?case
  proof (cases "retryCount < maxRetries")
    case False
    then show ?thesis by (simp add: retry_loop_limit)
  next
    case lt: True
    obtain r w' where ow: "operation w = (r, w')" by (cases "operation w")
    show ?thesis
    proof (cases r)
      case (Inr v)
      with ow lt show ?thesis by (simp add: retry_loop_success invocations_def)
    next
      case (Inl error)
      show ?thesis
      proof (cases "read_message error")
        case typeError: (Inl typeError)
        with ow Inl lt show ?thesis by (simp add: retry_loop_type_error invocations_def)
      next
        case m: (Inr m)
        show ?thesis
        proof (cases "maxRetries \<le> retryCount + 1")
          case True
          with ow Inl m lt show ?thesis by (simp add: retry_loop_give_up invocations_def)
        next
          case False
          from "1.IH" [OF lt ow [symmetric] Inl m False] ow Inl m lt False show ?thesis
            by (simp add: retry_loop_again invocations_def)
        qed
      qed
    qed
  qed
qed

lemma retry_loop_preserves:
  "\<forall>u. g (snd (operation u)) = g u \<Longrightarrow>
     g (fst (snd (retry_loop operation maxRetries operationName retryCount w evs))) = g w"
proof (induction operation maxRetries operationName retryCount w evs rule: retry_loop.induct)
  case (1 operation maxRetries operationName retryCount w evs)
  show ?case
  proof (cases "retryCount < maxRetries")
    case False
    then show ?thesis by (simp add: retry_loop_limit)
  next
    case lt: True
    obtain r w' where ow: "operation w = (r, w')" by (cases "operation w")
    from "1.prems" ow have gw: "g w' = g w" by (metis snd_conv)
    show ?thesis
    proof (cases r)
      case (Inr v)
      with ow lt gw show ?thesis by (simp add: retry_loop_success)
    next
      case (Inl error)
      show ?thesis
      proof (cases "read_message error")
        case typeError: (Inl typeError)
        with ow Inl lt gw show ?thesis by (simp add: retry_loop_type_error)
      next
        case m: (Inr m)
        show ?thesis
        proof (cases "maxRetries \<le> retryCount + 1")
          case True
          with ow Inl m lt gw show ?thesis by (simp add: retry_loop_give_up)
        next
          case False
          with "1.IH" [OF lt ow [symmetric] Inl m False "1.prems"] ow Inl m lt gw show ?thesis
            by (simp add: retry_loop_again)
        qed
      qed
    qed
  qed
qed

text \<open>The loop logs no failure of cleanupFile.\<close>

lemma cleanup_errors_append: "cleanup_errors (xs @ ys) = cleanup_errors xs @ cleanup_errors ys"
  by (induction xs rule: cleanup_errors.induct) auto

lemma retry_loop_cleanup_errors:
  "cleanup_errors (snd (snd (retry_loop operation maxRetries operationName retryCount w evs)))
     = cleanup_errors evs"
proof (induction operation maxRetries operationName retryCount w evs rule: retry_loop.induct)
  case (1 operation maxRetries operationName retryCount w evs)
  show ?case
  proof (cases "retryCount < maxRetries")
    case False
    then show ?thesis by (simp add: retry_loop_limit)
  next
    case lt: True
    obtain r w' where ow: "operation w = (r, w')" by (cases "operation w")
    show ?thesis
    proof (cases r)
      case (Inr v)
      with ow lt show ?thesis by (simp add: retry_loop_success cleanup_errors_append)
    next
      case (Inl error)
      show ?thesis
      proof (cases "read_message error")
        case typeError: (Inl typeError)
        with ow Inl lt show ?thesis by (simp add: retry_loop_type_error cleanup_errors_append)
      next
        case m: (Inr m)
        show ?thesis
        proof (cases "maxRetries \<le> retryCount + 1")
          case True
          with ow Inl m lt show ?thesis by (simp add: retry_loop_give_up cleanup_errors_append)
        next
          case False
          from "1.IH" [OF lt ow [symmetric] Inl m False] ow Inl m lt False show ?thesis
            by (simp add: retry_loop_again cleanup_errors_append)
        qed
      qed
    qed
  qed
qed

text \<open>
  An operation that neither reads nor writes a part of the world runs the same loop
  whatever that part holds; \<open>h\<close> overwrites the part.
\<close>

lemma retry_loop_independent:
  "\<forall>u. operation (h u) = (fst (operation u), h (snd (operation u))) \<Longrightarrow>
     retry_loop operation maxRetries operationName retryCount (h w) evs =
       (fst (retry_loop operation maxRetries operationName retryCount w evs),
        h (fst (snd (retry_loop operation maxRetries operationName retryCount w evs))),
        snd (snd (retry_loop operation maxRetries operationName retryCount w evs)))"
proof (induction operation maxRetries operationName retryCount w evs rule: retry_loop.induct)
  case (1 operation maxRetries operationName retryCount w evs)
  show ?case
  proof (cases "retryCount < maxRetries")
    case False
    then show ?thesis by (simp add: retry_loop_limit)
  next
    case lt: True
    obtain r w' where ow: "operation w = (r, w')" by (cases "operation w")
    with "1.prems" have oh: "operation (h w) = (r, h w')" by simp
    show ?thesis
    proof (cases r)
      case (Inr v)
      with ow oh lt show ?thesis by (simp add: retry_loop_success)
    next
      case (Inl error)
      show ?thesis
      proof (cases "read_message error")
        case typeError: (Inl typeError)
        with ow oh Inl lt show ?thesis by (simp add: retry_loop_type_error)
      next
        case m: (Inr m)
        show ?thesis
        proof (cases "maxRetries \<le> retryCount + 1")
          case True
          with ow oh Inl m lt show ?thesis by (simp add: retry_loop_give_up)
        next
          case False
          from "1.IH" [OF lt ow [symmetric] Inl m False "1.prems"] ow oh Inl m lt False show ?thesis
            by (simp add: retry_loop_again)
        qed
      qed
    qed
  qed
qed

lemma toLowerCase_labels:
  "toLowerCase ''Transcription'' = ''transcription''" "toLowerCase ''Evaluation'' = ''evaluation''"
  by code_simp+

section \<open>The handler, path by path\<close>

lemma await_retry_fs:
  "\<forall>u. fs (snd (operation u)) = fs u \<Longrightarrow> fs (snd (await_retry operation maxRetries operationName w)) = fs w"
  using retry_loop_preserves [of fs operation maxRetries operationName 0 w "[]"]
  by (auto simp: await_retry_def retryOperation_def split: prod.splits)

lemma transcription_operation_fs: "fs (snd (transcription_operation cap p u)) = fs u"
  by (simp add: transcription_operation_def split: prod.splits)

lemma evaluation_operation_fs: "fs (snd (evaluation_operation cap q t u)) = fs u"
  by (simp add: evaluation_operation_def split: prod.splits)

lemma await_retry_defined:
  "0 < maxRetries \<Longrightarrow> fst (await_retry operation maxRetries operationName w) \<noteq> Inr None"
  using retry_loop_defined [of 0 maxRetries operation operationName w "[]"]
  by (auto simp: await_retry_def retryOperation_def split: prod.splits)

lemma cleanupFile_removes:
  "p \<noteq> [] \<Longrightarrow> p \<notin> undeletable (fs w) \<Longrightarrow> p \<notin> files (fs (cleanupFile (Some p) w))"
  by (simp add: cleanupFile_def existsSync_def unlinkSync_def)

lemma cleanupFile_refused:
  "p \<in> files (fs w) \<Longrightarrow> p \<in> undeletable (fs w) \<Longrightarrow> fs (cleanupFile (Some p) w) = fs w"
  by (simp add: cleanupFile_def existsSync_def unlinkSync_def)

lemma cleanupFile_events_fs:
  "fs (cleanupFile fp (w\<lparr>events := evs\<rparr>)) = fs (cleanupFile fp w)"
  by (simp add: cleanupFile_def existsSync_def unlinkSync_def split: option.splits)

lemma cleanupFile_fs_only:
  "fs u = fs w \<Longrightarrow> fs (cleanupFile fp u) = fs (cleanupFile fp w)"
  by (simp add: cleanupFile_def existsSync_def unlinkSync_def split: option.splits)

lemma cleanupFile_services: "services (cleanupFile fp w) = services w"
  by (simp add: cleanupFile_def existsSync_def unlinkSync_def split: option.splits)

lemma handler_transcription_failed:
  "file_part req = Some f \<Longrightarrow> question req = Some q \<Longrightarrow> q \<noteq> [] \<Longrightarrow>
   await_retry (transcription_operation cap (path f)) 3 ''Transcription'' w = (Inl error, wt) \<Longrightarrow>
   assessment_handler cap req w = catch_block error req wt"
  by (simp add: assessment_handler_def)

lemma handler_evaluation_failed:
  "file_part req = Some f \<Longrightarrow> question req = Some q \<Longrightarrow> q \<noteq> [] \<Longrightarrow>
   await_retry (transcription_operation cap (path f)) 3 ''Transcription'' w = (Inr t, wt) \<Longrightarrow>
   await_retry (evaluation_operation cap q t) 3 ''Evaluation'' wt = (Inl error, we) \<Longrightarrow>
   assessment_handler cap req w = catch_block error req we"
  by (simp add: assessment_handler_def)

lemma handler_succeeded:
  "file_part req = Some f \<Longrightarrow> question req = Some q \<Longrightarrow> q \<noteq> [] \<Longrightarrow>
   await_retry (transcription_operation cap (path f)) 3 ''Transcription'' w = (Inr t, wt) \<Longrightarrow>
   await_retry (evaluation_operation cap q t) 3 ''Evaluation'' wt = (Inr r, we) \<Longrightarrow>
   assessment_handler cap req w =
     (\<lparr>status = 200,
       body = success_body cap f q t (fst (parse_evaluation (JSON_parse cap) r))\<rparr>,
      (cleanupFile (Some (path f)) we)
        \<lparr>events := events (cleanupFile (Some (path f)) we) @ snd (parse_evaluation (JSON_parse cap) r)\<rparr>)"
  by (simp add: assessment_handler_def split: prod.splits)

lemma fs_after_transcription:
  "await_retry (transcription_operation cap p) n name w = (r, wt) \<Longrightarrow> fs wt = fs w"
  using await_retry_fs [of "transcription_operation cap p" n name w]
  by (simp add: transcription_operation_fs)

lemma fs_after_evaluation:
  "await_retry (evaluation_operation cap q t) n name w = (r, we) \<Longrightarrow> fs we = fs w"
  using await_retry_fs [of "evaluation_operation cap q t" n name w]
  by (simp add: evaluation_operation_fs)

lemma catch_block_fs:
  "file_part req = Some f \<Longrightarrow> fs u = fs w \<Longrightarrow>
     fs (snd (catch_block error req u)) = fs (cleanupFile (Some (path f)) w)"
  using cleanupFile_fs_only [of u w "Some (path f)"]
  by (simp add: catch_block_def cleanupFile_events_fs)

lemma catch_block_status: "status (fst (catch_block error req u)) = 500"
  by (simp add: catch_block_def)

lemma assessment_of_success_body:
  "get_property ''assessment'' (success_body cap f q t evaluation) = Some evaluation"
  by (simp add: success_body_def split: option.splits)

lemma success_of_success_body:
  "get_property ''success'' (success_body cap f q t evaluation) = Some (JBool True)"
  by (simp add: success_body_def)

text \<open>What cleanupFile logs and leaves, in terms of the directory it finds.\<close>

lemma cleanupFile_cleanup_errors:
  "cleanup_errors (events (cleanupFile (Some p) u)) =
     cleanup_errors (events u)
       @ (if p \<noteq> [] \<and> existsSync p (fs u) \<and> p \<in> undeletable (fs u)
          then [Error ''EPERM: operation not permitted, unlink''] else [])"
  by (simp add: cleanupFile_def existsSync_def unlinkSync_def cleanup_errors_append)

lemma cleanupFile_then_log:
  "cleanup_errors logged = [] \<Longrightarrow>
     cleanup_errors (events ((cleanupFile fp u)\<lparr>events := events (cleanupFile fp u) @ logged\<rparr>)) =
       cleanup_errors (events (cleanupFile fp u))"
  by (simp add: cleanup_errors_append)

lemma cleanupFile_events_only:
  "fs u = fs w \<Longrightarrow> cleanup_errors (events u) = cleanup_errors (events w) \<Longrightarrow>
     cleanup_errors (events (cleanupFile (Some p) u)) = cleanup_errors (events (cleanupFile (Some p) w))"
  by (simp add: cleanupFile_cleanup_errors)

lemma parse_evaluation_cleanup_errors: "cleanup_errors (snd (parse_evaluation parse r)) = []"
  by (simp add: parse_evaluation_def split: sum.splits)

text \<open>The two awaited calls log no failure of cleanupFile and do not look at the directory.\<close>

lemma transcription_operation_events: "events (snd (transcription_operation cap p u)) = events u"
  by (simp add: transcription_operation_def split: prod.splits)

lemma evaluation_operation_events: "events (snd (evaluation_operation cap q t u)) = events u"
  by (simp add: evaluation_operation_def split: prod.splits)

lemma await_retry_cleanup_errors:
  "\<forall>u. events (snd (operation u)) = events u \<Longrightarrow>
     cleanup_errors (events (snd (await_retry operation maxRetries operationName w))) =
       cleanup_errors (events w)"
  using retry_loop_preserves [of events operation maxRetries operationName 0 w "[]"]
    retry_loop_cleanup_errors [of operation maxRetries operationName 0 w "[]"]
  by (auto simp: await_retry_def retryOperation_def cleanup_errors_append split: prod.splits)

lemma cleanup_errors_after_transcription:
  "await_retry (transcription_operation cap p) n name w = (r, wt) \<Longrightarrow>
     cleanup_errors (events wt) = cleanup_errors (events w)"
  using await_retry_cleanup_errors [of "transcription_operation cap p" n name w]
  by (simp add: transcription_operation_events)

lemma cleanup_errors_after_evaluation:
  "await_retry (evaluation_operation cap q t) n name w = (r, we) \<Longrightarrow>
     cleanup_errors (events we) = cleanup_errors (events w)"
  using await_retry_cleanup_errors [of "evaluation_operation cap q t" n name w]
  by (simp add: evaluation_operation_events)

lemma await_retry_independent:
  "\<forall>u. operation (u\<lparr>fs := (fs u)\<lparr>undeletable := X\<rparr>\<rparr>) =
          (fst (operation u), (snd (operation u))\<lparr>fs := (fs (snd (operation u)))\<lparr>undeletable := X\<rparr>\<rparr>) \<Longrightarrow>
   await_retry operation maxRetries operationName w = (r, w') \<Longrightarrow>
     await_retry operation maxRetries operationName (w\<lparr>fs := (fs w)\<lparr>undeletable := X\<rparr>\<rparr>) =
       (r, w'\<lparr>fs := (fs w')\<lparr>undeletable := X\<rparr>\<rparr>)"
  using retry_loop_independent
    [of operation "\<lambda>u. u\<lparr>fs := (fs u)\<lparr>undeletable := X\<rparr>\<rparr>" maxRetries operationName 0 w "[]"]
  by (auto simp: await_retry_def retryOperation_def split: prod.splits)

lemma transcription_independent:
  "await_retry (transcription_operation cap p) n name w = (r, wt) \<Longrightarrow>
     await_retry (transcription_operation cap p) n name (w\<lparr>fs := (fs w)\<lparr>undeletable := X\<rparr>\<rparr>) =
       (r, wt\<lparr>fs := (fs wt)\<lparr>undeletable := X\<rparr>\<rparr>)"
  by (rule await_retry_independent) (simp_all add: transcription_operation_def split: prod.splits)

lemma evaluation_independent:
  "await_retry (evaluation_operation cap q t) n name w = (r, we) \<Longrightarrow>
     await_retry (evaluation_operation cap q t) n name (w\<lparr>fs := (fs w)\<lparr>undeletable := X\<rparr>\<rparr>) =
       (r, we\<lparr>fs := (fs we)\<lparr>undeletable := X\<rparr>\<rparr>)"
  by (rule await_retry_independent) (simp_all add: evaluation_operation_def split: prod.splits)

text \<open>The reply does not depend on whether the operating system lets files be removed.\<close>

lemma handler_reply_independent:
  assumes "file_part req = Some f" and "question req = Some q" and "q \<noteq> []"
  shows "fst (assessment_handler cap req (w\<lparr>fs := (fs w)\<lparr>undeletable := X\<rparr>\<rparr>)) =
         fst (assessment_handler cap req w)"
proof (cases "await_retry (transcription_operation cap (path f)) 3 ''Transcription'' w")
  case (Pair rt wt)
  note T = Pair and T' = transcription_independent [OF Pair, of X]
  show ?thesis
  proof (cases rt)
    case (Inl error)
    with T T' show ?thesis
      using handler_transcription_failed [OF assms, of cap w error wt]
        handler_transcription_failed [OF assms, of cap "w\<lparr>fs := (fs w)\<lparr>undeletable := X\<rparr>\<rparr>" error
          "wt\<lparr>fs := (fs wt)\<lparr>undeletable := X\<rparr>\<rparr>"]
      by (simp add: catch_block_def)
  next
    case (Inr t)
    show ?thesis
    proof (cases "await_retry (evaluation_operation cap q t) 3 ''Evaluation'' wt")
      case inner: (Pair re we)
      note E' = evaluation_independent [OF inner, of X]
      show ?thesis
      proof (cases re)
        case (Inl error)
        with T T' Inr inner E' show ?thesis
          using handler_evaluation_failed [OF assms, of cap w t wt error we]
            handler_evaluation_failed [OF assms, of cap "w\<lparr>fs := (fs w)\<lparr>undeletable := X\<rparr>\<rparr>" t
              "wt\<lparr>fs := (fs wt)\<lparr>undeletable := X\<rparr>\<rparr>" error "we\<lparr>fs := (fs we)\<lparr>undeletable := X\<rparr>\<rparr>"]
          by (simp add: catch_block_def)
      next
        case r: (Inr r)
        with T T' Inr inner E' show ?thesis
          using handler_succeeded [OF assms, of cap w t wt r we]
            handler_succeeded [OF assms, of cap "w\<lparr>fs := (fs w)\<lparr>undeletable := X\<rparr>\<rparr>" t
              "wt\<lparr>fs := (fs wt)\<lparr>undeletable := X\<rparr>\<rparr>" r "we\<lparr>fs := (fs we)\<lparr>undeletable := X\<rparr>\<rparr>"]
          by simp
      qed
    qed
  qed
qed

text \<open>
  The world after a request with audio and question: one call of cleanupFile, on a world
  with the directory and the logged cleanup failures of the one the request found,
  followed by log lines that are no cleanup failures.
\<close>

lemma handler_world:
  assumes "file_part req = Some f" and "question req = Some q" and "q \<noteq> []"
  shows "\<exists>u logged. fs u = fs w \<and> cleanup_errors (events u) = cleanup_errors (events w)
           \<and> cleanup_errors logged = []
           \<and> (status (fst (assessment_handler cap req w)) = 200
                \<or> status (fst (assessment_handler cap req w)) = 500)
           \<and> snd (assessment_handler cap req w) =
               (cleanupFile (Some (path f)) u)\<lparr>events := events (cleanupFile (Some (path f)) u) @ logged\<rparr>"
proof (cases "await_retry (transcription_operation cap (path f)) 3 ''Transcription'' w")
  case (Pair rt wt)
  then have fwt: "fs wt = fs w" and cwt: "cleanup_errors (events wt) = cleanup_errors (events w)"
    by (rule fs_after_transcription, rule cleanup_errors_after_transcription)
  show ?thesis
  proof (cases rt)
    case (Inl error)
    let ?u = "wt\<lparr>events := events wt @ [Console_error ''Error assessing audio:'' error]\<rparr>"
    from Pair Inl have "assessment_handler cap req w = catch_block error req wt"
      using handler_transcription_failed [OF assms] by simp
    then have "fs ?u = fs w \<and> cleanup_errors (events ?u) = cleanup_errors (events w)
           \<and> cleanup_errors [] = []
           \<and> (status (fst (assessment_handler cap req w)) = 200
                \<or> status (fst (assessment_handler cap req w)) = 500)
           \<and> snd (assessment_handler cap req w) =
               (cleanupFile (Some (path f)) ?u)\<lparr>events := events (cleanupFile (Some (path f)) ?u) @ []\<rparr>"
      using fwt cwt assms(1) by (simp add: catch_block_def cleanup_errors_append)
    then show ?thesis by blast
  next
    case (Inr t)
    show ?thesis
    proof (cases "await_retry (evaluation_operation cap q t) 3 ''Evaluation'' wt")
      case inner: (Pair re we)
      then have "fs we = fs wt" and "cleanup_errors (events we) = cleanup_errors (events wt)"
        by (rule fs_after_evaluation, rule cleanup_errors_after_evaluation)
      with fwt cwt have fwe: "fs we = fs w" and cwe: "cleanup_errors (events we) = cleanup_errors (events w)"
        by simp_all
      show ?thesis
      proof (cases re)
        case (Inl error)
        let ?u = "we\<lparr>events := events we @ [Console_error ''Error assessing audio:'' error]\<rparr>"
        from Pair Inr inner Inl have "assessment_handler cap req w = catch_block error req we"
          using handler_evaluation_failed [OF assms] by simp
        then have "fs ?u = fs w \<and> cleanup_errors (events ?u) = cleanup_errors (events w)
           \<and> cleanup_errors [] = []
           \<and> (status (fst (assessment_handler cap req w)) = 200
                \<or> status (fst (assessment_handler cap req w)) = 500)
           \<and> snd (assessment_handler cap req w) =
               (cleanupFile (Some (path f)) ?u)\<lparr>events := events (cleanupFile (Some (path f)) ?u) @ []\<rparr>"
          using fwe cwe assms(1) by (simp add: catch_block_def cleanup_errors_append)
        then show ?thesis by blast
      next
        case r: (Inr r)
        let ?logged = "snd (parse_evaluation (JSON_parse cap) r)"
        from Pair Inr inner r have "assessment_handler cap req w =
             (\<lparr>status = 200,
               body = success_body cap f q t (fst (parse_evaluation (JSON_parse cap) r))\<rparr>,
              (cleanupFile (Some (path f)) we)
                \<lparr>events := events (cleanupFile (Some (path f)) we) @ ?logged\<rparr>)"
          using handler_succeeded [OF assms] by simp
        then have "fs we = fs w \<and> cleanup_errors (events we) = cleanup_errors (events w)
           \<and> cleanup_errors ?logged = []
           \<and> (status (fst (assessment_handler cap req w)) = 200
                \<or> status (fst (assessment_handler cap req w)) = 500)
           \<and> snd (assessment_handler cap req w) =
               (cleanupFile (Some (path f)) we)\<lparr>events := events (cleanupFile (Some (path f)) we) @ ?logged\<rparr>"
          using fwe cwe by (simp add: parse_evaluation_cleanup_errors)
        then show ?thesis by blast
      qed
    qed
  qed
qed

section \<open>The example texts, parsed\<close>

lemma parse_text_not_json:
  "JSON_parse_fragment text_not_json = Inl (Error ''Unexpected token in JSON'')"
  by code_simp

lemma parse_text_bad_score: "JSON_parse_fragment text_bad_score = Inr assessment_bad_score"
  by code_simp

lemmas evaluate_handler =
  assessment_handler_def await_retry_def retryOperation_def retry_loop.simps
  transcription_operation_def evaluation_operation_def constant_services_def
  parse_evaluation_def first_content_def success_body_def catch_block_def bad_request_def
  errorMessage_of_def cleanupFile_def existsSync_def unlinkSync_def
  request_example_def request_without_question_def request_without_audio_def upload_example_def
  world_example_def world_undeletable_def world_without_upload_def
  read_message_def template_text_def
  parse_text_not_json parse_text_bad_score toLowerCase_labels int_toString_small

section \<open>Claims about retryOperation\<close>

text \<open>
  C3. The claim: for every operation passed with three attempts allowed, two failures and a
  success give the third attempt's result after two delays, and three failures give an
  aggregated error naming the operation. The \<open>catch\<close> of line 71 reads \<open>error.message\<close>: when
  the operation rejects with \<open>null\<close>, reading it throws, and retryOperation rejects with that
  TypeError after a single invocation, without delay, retry or aggregated error. Here the
  operation would have succeeded on its third call, and the one that never succeeds is
  given up after one call with an error that does not name it.
\<close>

theorem null_rejection_not_retried:
  "null_rejecting_operation 2 0 = (Inl Null, 1)
   \<and> null_rejecting_operation 2 1 = (Inl Null, 2)
   \<and> null_rejecting_operation 2 2 = (Inr ''a transcript'', 3)
   \<and> retryOperation (null_rejecting_operation 2) 3 ''Transcription'' 0 =
       (Inl (Error ''Cannot read properties of null (reading 'message')''), 1, [Invoked])
   \<and> retryOperation (null_rejecting_operation 3) 3 ''Transcription'' 0 =
       (Inl (Error ''Cannot read properties of null (reading 'message')''), 1, [Invoked])"
  by (simp add: null_rejecting_operation_def retryOperation_def retry_loop.simps read_message_def)

text \<open>
  C3, as the code has it. Take an operation whose rejections are \<open>Error\<close> objects, or other
  values that are neither \<open>null\<close> nor \<open>undefined\<close> and whose \<open>message\<close> is a string or
  absent, and three attempts allowed. If it fails twice and
  then succeeds, the third attempt's result is returned after exactly two delays, of 1000 ms
  and 2000 ms (the number of the failed attempt times one second). If it fails three times,
  the call throws an error whose message carries the lower-cased operation name, the limit
  3 and the message of the third rejection, and no delay follows the last failure. A
  success on the first or second attempt ends the loop at once. Whatever the operation, it
  is never invoked more than three times.
\<close>

theorem retryOperation_three_attempts:
  "(operation wa = (Inl (Thrown ma), wb) \<and> operation wb = (Inl (Thrown mb), wc)
      \<and> operation wc = (Inr v, wd) \<longrightarrow>
      retryOperation operation 3 operationName wa =
        (Inr (Some v), wd,
         [Invoked, Console_log (operationName @ '' attempt 1 failed:'') ma, SetTimeout 1000,
          Invoked, Console_log (operationName @ '' attempt 2 failed:'') mb, SetTimeout 2000,
          Invoked]))
   \<and> (operation wa = (Inl (Thrown ma), wb) \<and> operation wb = (Inl (Thrown mb), wc)
      \<and> operation wc = (Inl (Thrown mc), wd) \<longrightarrow>
      retryOperation operation 3 operationName wa =
        (Inl (Error (''Failed to complete '' @ toLowerCase operationName @ '' after 3 attempts: ''
                @ template_text mc)),
         wd,
         [Invoked, Console_log (operationName @ '' attempt 1 failed:'') ma, SetTimeout 1000,
          Invoked, Console_log (operationName @ '' attempt 2 failed:'') mb, SetTimeout 2000,
          Invoked, Console_log (operationName @ '' attempt 3 failed:'') mc]))
   \<and> (operation wa = (Inr v, wb) \<longrightarrow>
      retryOperation operation 3 operationName wa = (Inr (Some v), wb, [Invoked]))
   \<and> (operation wa = (Inl (Thrown ma), wb) \<and> operation wb = (Inr v, wc) \<longrightarrow>
      retryOperation operation 3 operationName wa =
        (Inr (Some v), wc,
         [Invoked, Console_log (operationName @ '' attempt 1 failed:'') ma, SetTimeout 1000,
          Invoked]))
   \<and> invocations (snd (snd (retryOperation operation 3 operationName wa))) \<le> 3"
proof (intro conjI impI)
  assume "operation wa = (Inl (Thrown ma), wb) \<and> operation wb = (Inl (Thrown mb), wc)
      \<and> operation wc = (Inr v, wd)"
  then show "retryOperation operation 3 operationName wa =
        (Inr (Some v), wd,
         [Invoked, Console_log (operationName @ '' attempt 1 failed:'') ma, SetTimeout 1000,
          Invoked, Console_log (operationName @ '' attempt 2 failed:'') mb, SetTimeout 2000,
          Invoked])"
    by (simp add: retryOperation_def retry_loop_again [where m = ma] retry_loop_again [where m = mb]
        retry_loop_success read_message_def int_toString_small)
next
  assume "operation wa = (Inl (Thrown ma), wb) \<and> operation wb = (Inl (Thrown mb), wc)
      \<and> operation wc = (Inl (Thrown mc), wd)"
  then show "retryOperation operation 3 operationName wa =
        (Inl (Error (''Failed to complete '' @ toLowerCase operationName @ '' after 3 attempts: ''
                @ template_text mc)),
         wd,
         [Invoked, Console_log (operationName @ '' attempt 1 failed:'') ma, SetTimeout 1000,
          Invoked, Console_log (operationName @ '' attempt 2 failed:'') mb, SetTimeout 2000,
          Invoked, Console_log (operationName @ '' attempt 3 failed:'') mc])"
    by (simp add: retryOperation_def retry_loop_again [where m = ma] retry_loop_again [where m = mb]
        retry_loop_give_up [where m = mc] read_message_def int_toString_small)
next
  assume "operation wa = (Inr v, wb)"
  then show "retryOperation operation 3 operationName wa = (Inr (Some v), wb, [Invoked])"
    by (simp add: retryOperation_def retry_loop_success)
next
  assume "operation wa = (Inl (Thrown ma), wb) \<and> operation wb = (Inr v, wc)"
  then show "retryOperation operation 3 operationName wa =
        (Inr (Some v), wc,
         [Invoked, Console_log (operationName @ '' attempt 1 failed:'') ma, SetTimeout 1000,
          Invoked])"
    by (simp add: retryOperation_def retry_loop_again [where m = ma] retry_loop_success
        read_message_def int_toString_small)
next
  show "invocations (snd (snd (retryOperation operation 3 operationName wa))) \<le> 3"
    using retry_loop_invocations [of operation 3 operationName 0 wa "[]"]
    by (simp add: retryOperation_def invocations_def)
qed

theorem retryOperation_three_attempts_witness:
  "retryOperation (flaky_operation 2) 3 ''Transcription'' 0 =
     (Inr (Some ''a transcript''), 3,
      [Invoked, Console_log ''Transcription attempt 1 failed:'' (Some ''read ECONNRESET''), SetTimeout 1000,
       Invoked, Console_log ''Transcription attempt 2 failed:'' (Some ''socket hang up''), SetTimeout 2000,
       Invoked])
   \<and> retryOperation (flaky_operation 3) 3 ''Transcription'' 0 =
     (Inl (Error ''Failed to complete transcription after 3 attempts: 429 rate limit reached''), 3,
      [Invoked, Console_log ''Transcription attempt 1 failed:'' (Some ''read ECONNRESET''), SetTimeout 1000,
       Invoked, Console_log ''Transcription attempt 2 failed:'' (Some ''socket hang up''), SetTimeout 2000,
       Invoked, Console_log ''Transcription attempt 3 failed:'' (Some ''429 rate limit reached'')])
   \<and> retryOperation (flaky_operation 0) 3 ''Transcription'' 0 = (Inr (Some ''a transcript''), 1, [Invoked])
   \<and> retryOperation (flaky_operation 1) 3 ''Transcription'' 0 =
     (Inr (Some ''a transcript''), 2,
      [Invoked, Console_log ''Transcription attempt 1 failed:'' (Some ''read ECONNRESET''), SetTimeout 1000,
       Invoked])"
  using
    retryOperation_three_attempts [where operation = "flaky_operation 2" and wa = 0 and wb = 1
      and wc = 2 and wd = 3 and ma = "Some ''read ECONNRESET''" and mb = "Some ''socket hang up''"
      and v = "''a transcript''" and operationName = "''Transcription''"]
    retryOperation_three_attempts [where operation = "flaky_operation 3" and wa = 0 and wb = 1
      and wc = 2 and wd = 3 and ma = "Some ''read ECONNRESET''" and mb = "Some ''socket hang up''"
      and mc = "Some ''429 rate limit reached''" and operationName = "''Transcription''"]
    retryOperation_three_attempts [where operation = "flaky_operation 0" and wa = 0 and wb = 1
      and v = "''a transcript''" and operationName = "''Transcription''"]
    retryOperation_three_attempts [where operation = "flaky_operation 1" and wa = 0 and wb = 1
      and wc = 2 and ma = "Some ''read ECONNRESET''"
      and v = "''a transcript''" and operationName = "''Transcription''"]
  by (simp add: flaky_operation_def failure_text_def toLowerCase_labels template_text_def)

text \<open>
  C10. Called with a limit of zero or less, retryOperation resolves to \<open>undefined\<close>
  (\<open>Inr None\<close>): nothing is thrown, the operation is not invoked (no event, the world
  untouched).
\<close>

theorem retryOperation_without_attempts:
  "maxRetries \<le> 0 \<Longrightarrow> retryOperation operation maxRetries operationName w = (Inr None, w, [])"
  by (simp add: retryOperation_def retry_loop_limit)

theorem retryOperation_without_attempts_witness:
  "(0::int) \<le> 0 \<and> retryOperation (flaky_operation 0) 0 ''Operation'' 0 = (Inr None, 0, [])
   \<and> (-1::int) \<le> 0 \<and> retryOperation (flaky_operation 0) (-1) ''Operation'' 0 = (Inr None, 0, [])"
  using retryOperation_without_attempts [of 0 "flaky_operation 0" "''Operation''" 0]
    retryOperation_without_attempts [of "-1" "flaky_operation 0" "''Operation''" 0]
  by simp

section \<open>Claims about the request handler\<close>

text \<open>
  C7. A request without an audio part is answered with status 400 and the error
  \<open>No audio file provided\<close>. The world is returned as it was: no file is created, and no
  call reaches a service.
\<close>

theorem missing_audio_rejected:
  "file_part req = None \<Longrightarrow>
     assessment_handler cap req w =
       (\<lparr>status = 400,
         body = JObject [(''error'', JString ''No audio file provided''),
                         (''message'', JString ''Please provide an audio file in the request'')]\<rparr>,
        w)"
  by (simp add: assessment_handler_def bad_request_def)

theorem missing_audio_rejected_witness:
  "file_part request_without_audio = None
   \<and> assessment_handler (constant_services (Inr ''a transcript'') (Inr \<lparr>choices = [Some text_good]\<rparr>))
         request_without_audio world_without_upload =
       (\<lparr>status = 400,
         body = JObject [(''error'', JString ''No audio file provided''),
                         (''message'', JString ''Please provide an audio file in the request'')]\<rparr>,
        \<lparr>fs = \<lparr>files = {}, undeletable = {}\<rparr>, services = 0, events = []\<rparr>)"
  using missing_audio_rejected [of request_without_audio
      "constant_services (Inr ''a transcript'') (Inr \<lparr>choices = [Some text_good]\<rparr>)" world_without_upload]
  by (simp add: request_without_audio_def world_without_upload_def)

text \<open>
  C1. The claim: a request with an audio part but no question is answered with status 400 and
  the error \<open>No question provided\<close>, and the upload already written is deleted before the
  reply. On the code the reply is as claimed, but the handler returns on line 96 without
  calling cleanupFile, as the success path (line 164) and the catch block (line 203) do:
  the upload still exists afterwards.
\<close>

theorem missing_question_keeps_upload:
  "assessment_handler (constant_services (Inr ''a transcript'') (Inr \<lparr>choices = [Some text_good]\<rparr>))
       request_without_question world_example =
     (\<lparr>status = 400,
       body = JObject [(''error'', JString ''No question provided''),
                       (''message'', JString ''Please provide a question in the request body'')]\<rparr>,
      world_example)
   \<and> file_part request_without_question = Some upload_example
   \<and> existsSync (path upload_example) (fs world_example)"
  by (simp add: evaluate_handler)

text \<open>
  C4. When the transcription went through and the completion's text is not parseable, the
  reply has status 200 and \<open>success: true\<close>, and its assessment is the fixed fallback, whose
  score is content 3, clarity 2, completeness 1, total 6. The exception of the parser does
  not reach the caller.
\<close>

theorem unparseable_evaluation_falls_back:
  assumes "file_part req = Some f" and "question req = Some q" and "q \<noteq> []"
    and "await_retry (transcription_operation cap (path f)) 3 ''Transcription'' w = (Inr t, wt)"
    and "await_retry (evaluation_operation cap q t) 3 ''Evaluation'' wt = (Inr (Some r), we)"
    and "choices r = Some content # others"
    and "JSON_parse cap content = Inl parseError"
  shows "status (fst (assessment_handler cap req w)) = 200
     \<and> get_property ''success'' (body (fst (assessment_handler cap req w))) = Some (JBool True)
     \<and> get_property ''assessment'' (body (fst (assessment_handler cap req w))) = Some fallback_evaluation
     \<and> get_property ''score'' fallback_evaluation =
         Some (JObject [(''content'', JNumber 3), (''clarity'', JNumber 2),
                        (''completeness'', JNumber 1), (''total'', JNumber 6)])"
proof -
  have "fst (parse_evaluation (JSON_parse cap) (Some r)) = fallback_evaluation"
    using assms(6,7) by (simp add: parse_evaluation_def first_content_def)
  then show ?thesis
    using handler_succeeded [OF assms(1-5)]
    by (simp add: assessment_of_success_body success_of_success_body fallback_evaluation_def)
qed

theorem unparseable_evaluation_falls_back_witness:
  "status (fst (assessment_handler
       (constant_services (Inr ''a transcript'') (Inr \<lparr>choices = [Some text_not_json]\<rparr>))
       request_example world_example)) = 200
   \<and> get_property ''success'' (body (fst (assessment_handler
       (constant_services (Inr ''a transcript'') (Inr \<lparr>choices = [Some text_not_json]\<rparr>))
       request_example world_example))) = Some (JBool True)
   \<and> get_property ''assessment'' (body (fst (assessment_handler
       (constant_services (Inr ''a transcript'') (Inr \<lparr>choices = [Some text_not_json]\<rparr>))
       request_example world_example))) = Some fallback_evaluation
   \<and> JSON_parse_fragment text_not_json = Inl (Error ''Unexpected token in JSON'')"
  using unparseable_evaluation_falls_back
    [where cap = "constant_services (Inr ''a transcript'') (Inr \<lparr>choices = [Some text_not_json]\<rparr>)"
       and req = request_example and w = world_example and f = upload_example
       and q = "''What is photosynthesis?''" and t = "Some ''a transcript''"
       and wt = "world_example\<lparr>services := 1, events := [Invoked]\<rparr>"
       and r = "\<lparr>choices = [Some text_not_json]\<rparr>"
       and we = "world_example\<lparr>services := 2, events := [Invoked, Invoked]\<rparr>"
       and content = text_not_json and others = "[]"
       and parseError = "Error ''Unexpected token in JSON''"]
  by (simp add: await_retry_def retryOperation_def retry_loop.simps transcription_operation_def
      evaluation_operation_def constant_services_def request_example_def world_example_def
      parse_text_not_json)

text \<open>
  C2. The claim: every assessment in a 200 reply has a score whose total is the sum of
  content, clarity and completeness, each between 0 and 5, and an output of another shape is
  replaced by the fallback. The handler makes no such check: a text that parses is returned
  as parsed. Here content is 9 and total is 11, not 16.
\<close>

theorem malformed_score_returned:
  "status (fst (assessment_handler
       (constant_services (Inr ''a transcript'') (Inr \<lparr>choices = [Some text_bad_score]\<rparr>))
       request_example world_example)) = 200
   \<and> get_property ''assessment'' (body (fst (assessment_handler
       (constant_services (Inr ''a transcript'') (Inr \<lparr>choices = [Some text_bad_score]\<rparr>))
       request_example world_example))) = Some assessment_bad_score
   \<and> \<not> score_well_formed assessment_bad_score
   \<and> assessment_bad_score \<noteq> fallback_evaluation"
  by (simp add: evaluate_handler score_well_formed_def number_of_def assessment_bad_score_def
      fallback_evaluation_def)

text \<open>
  C2, as the code has it. In a 200 reply to a completion that carries a text, the assessment
  is what \<open>JSON.parse\<close> returns for that text, whatever its shape and score, and it is the
  fixed fallback when \<open>JSON.parse\<close> throws on it. The score of the fallback is well formed
  (6 = 3 + 2 + 1, each component between 0 and 5).
\<close>

theorem assessment_is_parsed_text_or_fallback:
  assumes "file_part req = Some f" and "question req = Some q" and "q \<noteq> []"
    and "await_retry (transcription_operation cap (path f)) 3 ''Transcription'' w = (Inr t, wt)"
    and "await_retry (evaluation_operation cap q t) 3 ''Evaluation'' wt = (Inr (Some r), we)"
    and "choices r = Some content # others"
  shows "status (fst (assessment_handler cap req w)) = 200
     \<and> get_property ''assessment'' (body (fst (assessment_handler cap req w))) =
         Some (case JSON_parse cap content of
                 Inr evaluation \<Rightarrow> evaluation
               | Inl parseError \<Rightarrow> fallback_evaluation)
     \<and> score_well_formed fallback_evaluation"
proof -
  have "fst (parse_evaluation (JSON_parse cap) (Some r)) =
          (case JSON_parse cap content of Inr evaluation \<Rightarrow> evaluation | Inl parseError \<Rightarrow> fallback_evaluation)"
    using assms(6) by (simp add: parse_evaluation_def first_content_def split: sum.splits)
  moreover have "score_well_formed fallback_evaluation"
    by (simp add: score_well_formed_def number_of_def fallback_evaluation_def)
  ultimately show ?thesis
    using handler_succeeded [OF assms(1-5)]
    by (simp add: assessment_of_success_body)
qed

theorem assessment_is_parsed_text_or_fallback_witness:
  "get_property ''assessment'' (body (fst (assessment_handler
       (constant_services (Inr ''a transcript'') (Inr \<lparr>choices = [Some text_bad_score]\<rparr>))
       request_example world_example))) = Some assessment_bad_score
   \<and> get_property ''assessment'' (body (fst (assessment_handler
       (constant_services (Inr ''a transcript'') (Inr \<lparr>choices = [Some text_not_json]\<rparr>))
       request_example world_example))) = Some fallback_evaluation
   \<and> score_well_formed fallback_evaluation"
  using assessment_is_parsed_text_or_fallback
    [where cap = "constant_services (Inr ''a transcript'') (Inr \<lparr>choices = [Some text_bad_score]\<rparr>)"
       and req = request_example and w = world_example and f = upload_example
       and q = "''What is photosynthesis?''" and t = "Some ''a transcript''"
       and wt = "world_example\<lparr>services := 1, events := [Invoked]\<rparr>"
       and r = "\<lparr>choices = [Some text_bad_score]\<rparr>"
       and we = "world_example\<lparr>services := 2, events := [Invoked, Invoked]\<rparr>"
       and content = text_bad_score and others = "[]"]
    assessment_is_parsed_text_or_fallback
    [where cap = "constant_services (Inr ''a transcript'') (Inr \<lparr>choices = [Some text_not_json]\<rparr>)"
       and req = request_example and w = world_example and f = upload_example
       and q = "''What is photosynthesis?''" and t = "Some ''a transcript''"
       and wt = "world_example\<lparr>services := 1, events := [Invoked]\<rparr>"
       and r = "\<lparr>choices = [Some text_not_json]\<rparr>"
       and we = "world_example\<lparr>services := 2, events := [Invoked, Invoked]\<rparr>"
       and content = text_not_json and others = "[]"]
  by (simp add: await_retry_def retryOperation_def retry_loop.simps transcription_operation_def
      evaluation_operation_def constant_services_def request_example_def world_example_def
      parse_text_not_json parse_text_bad_score)

text \<open>
  C6. The claim: a substituted fallback is a well-formed Assessment, with 2 to 4 strengths
  and 2 to 4 areas to improve. The fallback of lines 172-183 has one of each, against the
  rule the same file gives the model (lines 142-143) and the README's response table.
\<close>

theorem fallback_has_single_points:
  "status (fst (assessment_handler
       (constant_services (Inr ''a transcript'') (Inr \<lparr>choices = [Some text_not_json]\<rparr>))
       request_example world_example)) = 200
   \<and> get_property ''assessment'' (body (fst (assessment_handler
       (constant_services (Inr ''a transcript'') (Inr \<lparr>choices = [Some text_not_json]\<rparr>))
       request_example world_example))) = Some fallback_evaluation
   \<and> entries ''strengths'' fallback_evaluation = Some 1
   \<and> entries ''areasToImprove'' fallback_evaluation = Some 1"
  by (simp add: evaluate_handler entries_def fallback_evaluation_def)

text \<open>
  C5. The claim: for a request with audio and question, the upload is deleted before the
  reply, on the success path and when the retries are exhausted. cleanupFile catches and
  logs an exception of \<open>unlinkSync\<close>: when the operating system refuses the removal, the
  reply is sent all the same (200 or 500) and the upload stays.
\<close>

theorem upload_kept_when_removal_refused:
  "file_part request_example = Some upload_example
   \<and> question request_example = Some ''What is photosynthesis?''
   \<and> status (fst (assessment_handler
         (constant_services (Inr ''a transcript'') (Inr \<lparr>choices = [Some text_bad_score]\<rparr>))
         request_example world_undeletable)) = 200
   \<and> existsSync (path upload_example) (fs (snd (assessment_handler
         (constant_services (Inr ''a transcript'') (Inr \<lparr>choices = [Some text_bad_score]\<rparr>))
         request_example world_undeletable)))
   \<and> status (fst (assessment_handler
         (constant_services (Inl (Thrown (Some ''read ECONNRESET''))) (Inr \<lparr>choices = [Some text_bad_score]\<rparr>))
         request_example world_undeletable)) = 500
   \<and> existsSync (path upload_example) (fs (snd (assessment_handler
         (constant_services (Inl (Thrown (Some ''read ECONNRESET''))) (Inr \<lparr>choices = [Some text_bad_score]\<rparr>))
         request_example world_undeletable)))"
  by (simp add: evaluate_handler)

text \<open>
  C5, as the code has it. For a request with audio and question the reply is a 200 or a 500,
  on the success path and when the retries are exhausted, and before it is sent cleanupFile
  has run once on the upload's path: the directory, and the cleanup failures on the
  console, are those one call of cleanupFile makes of what the request found. So the upload
  no longer exists and no failure is logged, unless the operating system refuses the
  removal; then the upload stays and the failure is logged, once and without being
  rethrown. The reply is the same whether or not removals are refused.
\<close>

theorem upload_removed_unless_removal_refused:
  assumes "file_part req = Some f" and "question req = Some q" and "q \<noteq> []"
  shows "(status (fst (assessment_handler cap req w)) = 200
            \<or> status (fst (assessment_handler cap req w)) = 500)
     \<and> fs (snd (assessment_handler cap req w)) = fs (cleanupFile (Some (path f)) w)
     \<and> cleanup_errors (events (snd (assessment_handler cap req w))) =
         cleanup_errors (events (cleanupFile (Some (path f)) w))
     \<and> (path f \<noteq> [] \<and> path f \<notin> undeletable (fs w) \<longrightarrow>
          \<not> existsSync (path f) (fs (snd (assessment_handler cap req w)))
          \<and> cleanup_errors (events (snd (assessment_handler cap req w))) = cleanup_errors (events w))
     \<and> (path f \<noteq> [] \<and> existsSync (path f) (fs w) \<and> path f \<in> undeletable (fs w) \<longrightarrow>
          existsSync (path f) (fs (snd (assessment_handler cap req w)))
          \<and> cleanup_errors (events (snd (assessment_handler cap req w))) =
              cleanup_errors (events w) @ [Error ''EPERM: operation not permitted, unlink''])
     \<and> fst (assessment_handler cap req (w\<lparr>fs := (fs w)\<lparr>undeletable := X\<rparr>\<rparr>)) =
         fst (assessment_handler cap req w)"
proof -
  let ?H = "assessment_handler cap req w"
  let ?p = "path f"
  from handler_world [OF assms, where cap = cap and w = w]
  obtain u logged where u: "fs u = fs w" "cleanup_errors (events u) = cleanup_errors (events w)"
    and logged: "cleanup_errors logged = []"
    and st: "status (fst ?H) = 200 \<or> status (fst ?H) = 500"
    and world: "snd ?H = (cleanupFile (Some ?p) u)\<lparr>events := events (cleanupFile (Some ?p) u) @ logged\<rparr>"
    by blast
  have dir: "fs (snd ?H) = fs (cleanupFile (Some ?p) w)"
    using world cleanupFile_fs_only [OF u(1), of "Some ?p"] by simp
  have errs: "cleanup_errors (events (snd ?H)) = cleanup_errors (events (cleanupFile (Some ?p) w))"
    using world cleanupFile_then_log [OF logged, of "Some ?p" u] cleanupFile_events_only [OF u, of ?p]
    by simp
  have gone: "?p \<noteq> [] \<and> ?p \<notin> undeletable (fs w) \<longrightarrow>
      \<not> existsSync ?p (fs (snd ?H)) \<and> cleanup_errors (events (snd ?H)) = cleanup_errors (events w)"
    using dir errs cleanupFile_removes [of ?p w]
    by (simp add: existsSync_def cleanupFile_cleanup_errors)
  have kept: "?p \<noteq> [] \<and> existsSync ?p (fs w) \<and> ?p \<in> undeletable (fs w) \<longrightarrow>
      existsSync ?p (fs (snd ?H))
      \<and> cleanup_errors (events (snd ?H)) =
          cleanup_errors (events w) @ [Error ''EPERM: operation not permitted, unlink'']"
    using dir errs cleanupFile_refused [of ?p w]
    by (simp add: existsSync_def cleanupFile_cleanup_errors)
  show ?thesis
    using st dir errs gone kept handler_reply_independent [OF assms, where cap = cap and w = w and X = X] by simp
qed

theorem upload_removed_unless_removal_refused_witness:
  "\<not> existsSync (path upload_example) (fs (snd (assessment_handler
       (constant_services (Inr ''a transcript'') (Inr \<lparr>choices = [Some text_bad_score]\<rparr>))
       request_example world_example)))
   \<and> cleanup_errors (events (snd (assessment_handler
       (constant_services (Inr ''a transcript'') (Inr \<lparr>choices = [Some text_bad_score]\<rparr>))
       request_example world_example))) = []
   \<and> \<not> existsSync (path upload_example) (fs (snd (assessment_handler
       (constant_services (Inl (Thrown (Some ''read ECONNRESET''))) (Inr \<lparr>choices = [Some text_bad_score]\<rparr>))
       request_example world_example)))
   \<and> \<not> existsSync (path upload_example) (fs (snd (assessment_handler
       (constant_services (Inr ''a transcript'') (Inl (Thrown (Some ''429 rate limit reached''))))
       request_example world_example)))
   \<and> existsSync (path upload_example) (fs (snd (assessment_handler
       (constant_services (Inr ''a transcript'') (Inr \<lparr>choices = [Some text_bad_score]\<rparr>))
       request_example world_undeletable)))
   \<and> cleanup_errors (events (snd (assessment_handler
       (constant_services (Inr ''a transcript'') (Inr \<lparr>choices = [Some text_bad_score]\<rparr>))
       request_example world_undeletable))) = [Error ''EPERM: operation not permitted, unlink'']
   \<and> cleanup_errors (events (snd (assessment_handler
       (constant_services (Inl (Thrown (Some ''read ECONNRESET''))) (Inr \<lparr>choices = [Some text_bad_score]\<rparr>))
       request_example world_undeletable))) = [Error ''EPERM: operation not permitted, unlink'']
   \<and> fst (assessment_handler
       (constant_services (Inr ''a transcript'') (Inr \<lparr>choices = [Some text_bad_score]\<rparr>))
       request_example world_undeletable) =
     fst (assessment_handler
       (constant_services (Inr ''a transcript'') (Inr \<lparr>choices = [Some text_bad_score]\<rparr>))
       request_example world_example)"
  using
    upload_removed_unless_removal_refused
      [where cap = "constant_services (Inr ''a transcript'') (Inr \<lparr>choices = [Some text_bad_score]\<rparr>)"
         and req = request_example and w = world_example and f = upload_example
         and q = "''What is photosynthesis?''"
         and X = "{''uploads/audio-1705312200000-123456789.mp3''}"]
    upload_removed_unless_removal_refused
      [where cap = "constant_services (Inl (Thrown (Some ''read ECONNRESET''))) (Inr \<lparr>choices = [Some text_bad_score]\<rparr>)"
         and req = request_example and w = world_example and f = upload_example
         and q = "''What is photosynthesis?''"]
    upload_removed_unless_removal_refused
      [where cap = "constant_services (Inr ''a transcript'') (Inl (Thrown (Some ''429 rate limit reached'')))"
         and req = request_example and w = world_example and f = upload_example
         and q = "''What is photosynthesis?''"]
    upload_removed_unless_removal_refused
      [where cap = "constant_services (Inr ''a transcript'') (Inr \<lparr>choices = [Some text_bad_score]\<rparr>)"
         and req = request_example and w = world_undeletable and f = upload_example
         and q = "''What is photosynthesis?''"]
    upload_removed_unless_removal_refused
      [where cap = "constant_services (Inl (Thrown (Some ''read ECONNRESET''))) (Inr \<lparr>choices = [Some text_bad_score]\<rparr>)"
         and req = request_example and w = world_undeletable and f = upload_example
         and q = "''What is photosynthesis?''"]
  by (simp add: evaluate_handler)

text \<open>
  C8. When retryOperation gives up on the transcription or on the evaluation, the reply has
  status 500 and the body \<open>{error, details}\<close>: \<open>details\<close> is the message of the error the handler
  caught, and \<open>error\<close> is chosen by the first of the substrings \<open>ECONNRESET\<close>, \<open>API key\<close>,
  \<open>rate limit\<close> that occurs in that message, the generic text when none does.
\<close>

theorem pipeline_failure_categorized:
  assumes "file_part req = Some f" and "question req = Some q" and "q \<noteq> []"
    and "await_retry (transcription_operation cap (path f)) 3 ''Transcription'' w = (Inl error, wz)
         \<or> (\<exists>t wt. await_retry (transcription_operation cap (path f)) 3 ''Transcription'' w = (Inr t, wt)
               \<and> await_retry (evaluation_operation cap q t) 3 ''Evaluation'' wt = (Inl error, wz))"
  shows "fst (assessment_handler cap req w) =
      \<lparr>status = 500,
       body = JObject
         [(''error'', JString
             (if \<exists>a b. message error = a @ ''ECONNRESET'' @ b then
                ''Network connection issue. Please check your internet connection and try again.''
              else if \<exists>a b. message error = a @ ''API key'' @ b then
                ''OpenAI API key issue. Please check your configuration.''
              else if \<exists>a b. message error = a @ ''rate limit'' @ b then
                ''OpenAI rate limit exceeded. Please wait a moment and try again.''
              else ''Failed to assess audio'')),
          (''details'', JString (message error))]\<rparr>"
proof -
  have "assessment_handler cap req w = catch_block error req wz"
    using assms(4) handler_transcription_failed [OF assms(1-3)] handler_evaluation_failed [OF assms(1-3)]
    by blast
  then show ?thesis
    by (simp add: catch_block_def errorMessage_of_def includes_str_iff)
qed

theorem pipeline_failure_categorized_witness:
  "fst (assessment_handler
       (constant_services (Inl (Thrown (Some ''read ECONNRESET''))) (Inr \<lparr>choices = [Some text_bad_score]\<rparr>))
       request_example world_example) =
     \<lparr>status = 500,
      body = JObject
        [(''error'', JString ''Network connection issue. Please check your internet connection and try again.''),
         (''details'', JString ''Failed to complete transcription after 3 attempts: read ECONNRESET'')]\<rparr>
   \<and> fst (assessment_handler
       (constant_services (Inr ''a transcript'') (Inl (Thrown (Some ''Incorrect API key provided''))))
       request_example world_example) =
     \<lparr>status = 500,
      body = JObject
        [(''error'', JString ''OpenAI API key issue. Please check your configuration.''),
         (''details'', JString ''Failed to complete evaluation after 3 attempts: Incorrect API key provided'')]\<rparr>
   \<and> fst (assessment_handler
       (constant_services (Inr ''a transcript'') (Inl (Thrown (Some ''429 rate limit reached''))))
       request_example world_example) =
     \<lparr>status = 500,
      body = JObject
        [(''error'', JString ''OpenAI rate limit exceeded. Please wait a moment and try again.''),
         (''details'', JString ''Failed to complete evaluation after 3 attempts: 429 rate limit reached'')]\<rparr>
   \<and> fst (assessment_handler
       (constant_services (Inl (Thrown (Some ''socket hang up''))) (Inr \<lparr>choices = [Some text_bad_score]\<rparr>))
       request_example world_example) =
     \<lparr>status = 500,
      body = JObject
        [(''error'', JString ''Failed to assess audio''),
         (''details'', JString ''Failed to complete transcription after 3 attempts: socket hang up'')]\<rparr>"
  using
    pipeline_failure_categorized
      [where cap = "constant_services (Inl (Thrown (Some ''read ECONNRESET''))) (Inr \<lparr>choices = [Some text_bad_score]\<rparr>)"
         and req = request_example and w = world_example and f = upload_example
         and q = "''What is photosynthesis?''"
         and error = "Error ''Failed to complete transcription after 3 attempts: read ECONNRESET''"
         and wz = "snd (await_retry (transcription_operation
                     (constant_services (Inl (Thrown (Some ''read ECONNRESET''))) (Inr \<lparr>choices = [Some text_bad_score]\<rparr>))
                     (path upload_example)) 3 ''Transcription'' world_example)"]
    pipeline_failure_categorized
      [where cap = "constant_services (Inr ''a transcript'') (Inl (Thrown (Some ''Incorrect API key provided'')))"
         and req = request_example and w = world_example and f = upload_example
         and q = "''What is photosynthesis?''"
         and error = "Error ''Failed to complete evaluation after 3 attempts: Incorrect API key provided''"
         and wz = "world_example\<lparr>services := 4, events :=
                     [Invoked, Invoked, Console_log ''Evaluation attempt 1 failed:'' (Some ''Incorrect API key provided''),
                      SetTimeout 1000, Invoked,
                      Console_log ''Evaluation attempt 2 failed:'' (Some ''Incorrect API key provided''),
                      SetTimeout 2000, Invoked,
                      Console_log ''Evaluation attempt 3 failed:'' (Some ''Incorrect API key provided'')]\<rparr>"]
    pipeline_failure_categorized
      [where cap = "constant_services (Inr ''a transcript'') (Inl (Thrown (Some ''429 rate limit reached'')))"
         and req = request_example and w = world_example and f = upload_example
         and q = "''What is photosynthesis?''"
         and error = "Error ''Failed to complete evaluation after 3 attempts: 429 rate limit reached''"
         and wz = "world_example\<lparr>services := 4, events :=
                     [Invoked, Invoked, Console_log ''Evaluation attempt 1 failed:'' (Some ''429 rate limit reached''),
                      SetTimeout 1000, Invoked,
                      Console_log ''Evaluation attempt 2 failed:'' (Some ''429 rate limit reached''),
                      SetTimeout 2000, Invoked,
                      Console_log ''Evaluation attempt 3 failed:'' (Some ''429 rate limit reached'')]\<rparr>"]
    pipeline_failure_categorized
      [where cap = "constant_services (Inl (Thrown (Some ''socket hang up''))) (Inr \<lparr>choices = [Some text_bad_score]\<rparr>)"
         and req = request_example and w = world_example and f = upload_example
         and q = "''What is photosynthesis?''"
         and error = "Error ''Failed to complete transcription after 3 attempts: socket hang up''"
         and wz = "snd (await_retry (transcription_operation
                     (constant_services (Inl (Thrown (Some ''socket hang up''))) (Inr \<lparr>choices = [Some text_bad_score]\<rparr>))
                     (path upload_example)) 3 ''Transcription'' world_example)"]
  by (simp add: evaluate_handler includes_str_iff [symmetric])

section \<open>Claim about the 404 handler\<close>

text \<open>
  C9. Whatever the method and the URL, the 404 reply names \<open>POST /api/assess\<close> as the
  available endpoint. That is not the route the server registers, \<open>POST /api/assessment\<close>.
\<close>

theorem not_found_hint:
  "status (not_found_handler method originalUrl) = 404
   \<and> get_property ''availableEndpoint'' (body (not_found_handler method originalUrl))
       = Some (JString ''POST /api/assess'')
   \<and> ''POST /api/assess'' \<noteq> fst assessment_route @ '' '' @ snd assessment_route"
  by (simp add: not_found_handler_def assessment_route_def)

end
